theory Spec2Isabelle
  imports Main
begin

section \<open>Data model\<close>

text \<open>
  The entities the exporter receives from the design-system store. Only the fields the
  composer reads are kept; a token's value is an opaque payload. References that the
  SDK types as \<^verbatim>\<open>string | null\<close> are options.
\<close>

type_synonym tokenType = string

record token =
  t_id :: string
  t_name :: string
  t_tokenType :: tokenType
  t_value :: string
  t_brandId :: string
  t_collectionId :: "string option"
  t_parentGroupId :: "string option"

record tokenGroup =
  g_id :: string
  g_name :: string
  g_brandId :: string
  g_parentGroupId :: "string option"

record collection =
  c_persistentId :: string
  c_name :: string

record theme =
  th_id :: string
  th_idInVersion :: string
  th_name :: string
  th_overrides :: "(string \<times> string) list"

record brand =
  b_id :: string
  b_idInVersion :: string

record outputFile =
  f_path :: string
  f_name :: string
  f_content :: string

datatype json = JLeaf string | JObject "(string \<times> json) list"

datatype FileStructure = SeparateByType | SingleFile | SeparateByCollection

datatype ThemeExportStyle = NestedThemes | SeparateFiles | MergedTheme | ApplyDirectly

datatype StringCase = camelCase | kebabCase

text \<open>The shared object \<^verbatim>\<open>exportConfiguration\<close>.\<close>

record config =
  fileStructure :: FileStructure
  exportThemesAs :: ThemeExportStyle
  exportBaseValues :: bool
  exportOnlyThemedTokens :: bool
  indent :: string

text \<open>\<^verbatim>\<open>PulsarContext\<close>: the requested brand and themes.\<close>

record pulsarContext =
  ctx_brandId :: "string option"
  ctx_themeIds :: "string list option"

text \<open>What the SDK's \<^verbatim>\<open>getTokens\<close>, \<^verbatim>\<open>getTokenGroups\<close>, \<^verbatim>\<open>getTokenCollections\<close>,
  \<^verbatim>\<open>getBrands\<close> and \<^verbatim>\<open>getTokenThemes\<close> return.\<close>

record designSystem =
  ds_tokens :: "token list"
  ds_tokenGroups :: "tokenGroup list"
  ds_tokenCollections :: "collection list"
  ds_brands :: "brand list"
  ds_themes :: "theme list"

datatype error = UnableToFindBrand string | UnableToFindTheme string | SyntaxError

text \<open>
  The collaborators whose code is outside the two source files: the helpers of
  \<^verbatim>\<open>@supernovaio/export-utils\<close>, the SDK's theme overlay, the JavaScript runtime
  (\<^verbatim>\<open>toLowerCase\<close>, \<^verbatim>\<open>JSON\<close>), the enumeration \<^verbatim>\<open>TokenType\<close>, and the generators of
  \<^verbatim>\<open>./files/style-file\<close> and \<^verbatim>\<open>./utils/token-hierarchy\<close>. They are parameters of the
  model. The generators read the shared \<^verbatim>\<open>exportConfiguration\<close>, so they take the
  configuration current at the time of the call as their first argument.
\<close>

record env =
  codeSafeVariableName :: "string \<Rightarrow> StringCase \<Rightarrow> string"
  getThemeIdentifier :: "theme \<Rightarrow> StringCase \<Rightarrow> string"
  filterThemedTokens :: "token list \<Rightarrow> theme \<Rightarrow> token list"
  computeTokensByApplyingThemes :: "token list \<Rightarrow> token list \<Rightarrow> theme list \<Rightarrow> token list"
  toLowerCase :: "string \<Rightarrow> string"
  jsonStringify :: "json \<Rightarrow> string \<Rightarrow> string"
  jsonParse :: "string \<Rightarrow> json option"
  deepMerge :: "json \<Rightarrow> json \<Rightarrow> json"
  tokenTypeValues :: "tokenType list"
  processTokensToObject ::
    "config \<Rightarrow> token list \<Rightarrow> tokenGroup list \<Rightarrow> theme option \<Rightarrow> collection list \<Rightarrow> token list
      \<Rightarrow> json option"
  styleOutputFile ::
    "config \<Rightarrow> tokenType \<Rightarrow> token list \<Rightarrow> tokenGroup list \<Rightarrow> string \<Rightarrow> theme option
      \<Rightarrow> collection list \<Rightarrow> outputFile option"
  combinedStyleOutputFile ::
    "config \<Rightarrow> token list \<Rightarrow> tokenGroup list \<Rightarrow> string \<Rightarrow> theme option \<Rightarrow> collection list
      \<Rightarrow> outputFile option"
  combinedCollectionStyleOutputFile ::
    "config \<Rightarrow> collection \<Rightarrow> token list \<Rightarrow> tokenGroup list \<Rightarrow> string \<Rightarrow> theme option
      \<Rightarrow> collection list \<Rightarrow> outputFile option"

text \<open>\<^verbatim>\<open>FileHelper.createTextFile({relativePath, fileName, content})\<close> builds the text file
  with these three fields.\<close>

definition createTextFile :: "string \<Rightarrow> string \<Rightarrow> string \<Rightarrow> outputFile" where
  "createTextFile relativePath fileName content =
     \<lparr>f_path = relativePath, f_name = fileName, f_content = content\<rparr>"

section \<open>component-group-file.ts\<close>

text \<open>JavaScript truthiness of a \<^verbatim>\<open>string | null\<close>: \<^verbatim>\<open>null\<close> and the empty string are falsy.\<close>

definition truthy :: "string option \<Rightarrow> bool" where
  "truthy s = (case s of None \<Rightarrow> False | Some v \<Rightarrow> v \<noteq> [])"

definition knownComponents :: "string list" where
  "knownComponents =
     [''button'', ''accordion'', ''badge'', ''card'', ''input'', ''dialog'', ''dropdown'',
      ''checkbox'', ''radio'', ''switch'', ''tab'', ''toast'', ''tooltip'']"

text \<open>
  The \<^verbatim>\<open>while (currentGroupId)\<close> loop of lines 53-67. The source has no bound on the number
  of iterations, so the loop is a partial function: \<open>None\<close> is "does not return". A
  \<^verbatim>\<open>null\<close> and an empty id are both falsy and end the loop. \<open>lowerCase\<close> is the
  runtime's \<^verbatim>\<open>String.prototype.toLowerCase\<close>.
\<close>

partial_function (option) findComponentGroup ::
  "(string \<Rightarrow> string) \<Rightarrow> tokenGroup list \<Rightarrow> string \<Rightarrow> string option \<Rightarrow> string option" where
  "findComponentGroup lowerCase tokenGroups componentGroupId currentGroupId =
     (if \<not> truthy currentGroupId then Some componentGroupId
      else (case find (\<lambda>group. Some (g_id group) = currentGroupId) tokenGroups of
              None \<Rightarrow> Some componentGroupId
            | Some currentGroup \<Rightarrow>
                if lowerCase (g_name currentGroup) \<in> set knownComponents
                then Some (the currentGroupId)
                else findComponentGroup lowerCase tokenGroups componentGroupId
                       (g_parentGroupId currentGroup)))"

declare findComponentGroup.simps [code]

text \<open>\<^verbatim>\<open>tokensByComponentGroup\<close> is a JavaScript \<^verbatim>\<open>Map\<close>, which iterates in insertion order:
  an association list, a new key going to the end (lines 69-72).\<close>

definition mapPush ::
  "(string \<times> token list) list \<Rightarrow> string \<Rightarrow> token \<Rightarrow> (string \<times> token list) list" where
  "mapPush m k t =
     (let m1 = (if k \<in> set (map fst m) then m else m @ [(k, [])])
      in map (\<lambda>(k', ts). if k' = k then (k', ts @ [t]) else (k', ts)) m1)"

text \<open>The \<^verbatim>\<open>collectionTokens.forEach\<close> of lines 46-74.\<close>

fun tokensByComponentGroup ::
  "env \<Rightarrow> tokenGroup list \<Rightarrow> token list \<Rightarrow> (string \<times> token list) list
    \<Rightarrow> (string \<times> token list) list option" where
  "tokensByComponentGroup e tokenGroups [] m = Some m"
| "tokensByComponentGroup e tokenGroups (tok # toks) m =
     (case t_parentGroupId tok of
        None \<Rightarrow> tokensByComponentGroup e tokenGroups toks m
      | Some pid \<Rightarrow>
          if pid = [] then tokensByComponentGroup e tokenGroups toks m
          else (case findComponentGroup (toLowerCase e) tokenGroups pid (Some pid) of
                  None \<Rightarrow> None
                | Some componentGroupId \<Rightarrow>
                    tokensByComponentGroup e tokenGroups toks (mapPush m componentGroupId tok)))"

text \<open>The body of \<^verbatim>\<open>tokensByComponentGroup.forEach\<close>, lines 80-106: the file of one group,
  or nothing when the group or its tree is missing.\<close>

definition componentGroupFile ::
  "env \<Rightarrow> config \<Rightarrow> token list \<Rightarrow> tokenGroup list \<Rightarrow> string \<Rightarrow> theme option \<Rightarrow> collection list
    \<Rightarrow> string \<times> token list \<Rightarrow> outputFile option" where
  "componentGroupFile e cfg tokens tokenGroups themePath theme collections entry =
     (case entry of (groupId, groupTokens) \<Rightarrow>
        (case find (\<lambda>group. g_id group = groupId) tokenGroups of
           None \<Rightarrow> None
         | Some parentGroup \<Rightarrow>
             (case processTokensToObject e cfg groupTokens tokenGroups theme collections tokens of
                None \<Rightarrow> None
              | Some tokenObject \<Rightarrow>
                  let content = jsonStringify e tokenObject (indent cfg);
                      componentName = codeSafeVariableName e (g_name parentGroup) kebabCase;
                      baseFileName = componentName;
                      fileName = (if themePath \<noteq> [] then baseFileName @ ''.'' @ themePath @ ''.json''
                                  else baseFileName @ ''.json'');
                      relativePath = ''./components''
                  in Some (createTextFile relativePath fileName content))))"

text \<open>
  \<^verbatim>\<open>componentGroupStyleOutputFiles\<close>. \<open>callId\<close> is the value drawn from \<^verbatim>\<open>Math.random()\<close> on
  line 27, an input of the model. The result is \<open>None\<close> when the ancestor walk of some
  token does not return.
\<close>

definition componentGroupStyleOutputFiles ::
  "env \<Rightarrow> config \<Rightarrow> string \<Rightarrow> collection \<Rightarrow> token list \<Rightarrow> tokenGroup list \<Rightarrow> string \<Rightarrow> theme option
    \<Rightarrow> collection list \<Rightarrow> outputFile list option" where
  "componentGroupStyleOutputFiles e cfg callId collection tokens tokenGroups themePath theme collections =
     (let collectionTokens0 =
            filter (\<lambda>tok. t_collectionId tok = Some (c_persistentId collection)) tokens;
          grouped = (\<lambda>collectionTokens.
            (case tokensByComponentGroup e tokenGroups collectionTokens [] of
               None \<Rightarrow> None
             | Some m \<Rightarrow>
                 Some (List.map_filter
                         (componentGroupFile e cfg tokens tokenGroups themePath theme collections) m)))
      in (case theme of
            None \<Rightarrow> grouped collectionTokens0
          | Some th \<Rightarrow>
              if themePath \<noteq> [] \<and> exportOnlyThemedTokens cfg then
                (let collectionTokens = filterThemedTokens e collectionTokens0 th
                 in if collectionTokens = [] then Some [] else grouped collectionTokens)
              else grouped collectionTokens0))"

section \<open>The export function\<close>

text \<open>\<^verbatim>\<open>processOutputFiles\<close>, lines 16-18: the \<^verbatim>\<open>null\<close> entries are dropped.\<close>

definition processOutputFiles :: "outputFile option list \<Rightarrow> outputFile list" where
  "processOutputFiles files = List.map_filter (\<lambda>file. file) files"

text \<open>Lines 46-55: the brand filter. A missing brand throws.\<close>

definition filterByBrand ::
  "pulsarContext \<Rightarrow> designSystem \<Rightarrow> error + (token list \<times> tokenGroup list)" where
  "filterByBrand ctx ds =
     (if truthy (ctx_brandId ctx) then
        (let brandId = the (ctx_brandId ctx)
         in (case find (\<lambda>brand. b_id brand = brandId \<or> b_idInVersion brand = brandId) (ds_brands ds) of
               None \<Rightarrow> Inl (UnableToFindBrand brandId)
             | Some brand \<Rightarrow>
                 Inr (filter (\<lambda>tok. t_brandId tok = b_id brand) (ds_tokens ds),
                      filter (\<lambda>tokenGroup. g_brandId tokenGroup = b_id brand) (ds_tokenGroups ds))))
      else Inr (ds_tokens ds, ds_tokenGroups ds))"

text \<open>Lines 60-66: \<^verbatim>\<open>context.themeIds.map\<close>, which throws at the first identifier that no
  theme has.\<close>

fun themesToApply :: "theme list \<Rightarrow> string list \<Rightarrow> error + theme list" where
  "themesToApply themes [] = Inr []"
| "themesToApply themes (themeId # themeIds) =
     (case find (\<lambda>theme. th_id theme = themeId \<or> th_idInVersion theme = themeId) themes of
        None \<Rightarrow> Inl (UnableToFindTheme themeId)
      | Some theme \<Rightarrow>
          (case themesToApply themes themeIds of
             Inl err \<Rightarrow> Inl err
           | Inr rest \<Rightarrow> Inr (theme # rest)))"

subsection \<open>Classification of collections\<close>

definition collectionName :: "env \<Rightarrow> collection \<Rightarrow> string" where
  "collectionName e collection = codeSafeVariableName e (c_name collection) kebabCase"

definition collectionsWithTokens :: "token list \<Rightarrow> collection list \<Rightarrow> collection list" where
  "collectionsWithTokens tokens tokenCollections =
     filter (\<lambda>collection.
        list_ex (\<lambda>tok. t_collectionId tok = Some (c_persistentId collection)) tokens)
       tokenCollections"

definition isGlobalOrAlias :: "env \<Rightarrow> collection \<Rightarrow> bool" where
  "isGlobalOrAlias e collection =
     (collectionName e collection = ''global'' \<or> collectionName e collection = ''alias'')"

definition isComponents :: "env \<Rightarrow> collection \<Rightarrow> bool" where
  "isComponents e collection =
     (collectionName e collection = ''components'' \<or> collectionName e collection = ''component'')"

definition brandNames :: "string list" where
  "brandNames =
     [''zest'', ''factor'', ''chefsplate'', ''everyplate'', ''factorform'', ''factorui2'',
      ''goodchop'', ''greenchef'', ''hellofresh'', ''thepetstable'', ''youfoodz'']"

definition isBrand :: "env \<Rightarrow> collection \<Rightarrow> bool" where
  "isBrand e collection =
     (take 6 (collectionName e collection) = ''brand-'' \<or>
      collectionName e collection \<in> set brandNames)"

subsection \<open>Nested themes\<close>

text \<open>
  Lines 98-106 (and 167-171, 218-222): the themed call writes \<^verbatim>\<open>false\<close> to the shared
  \<^verbatim>\<open>exportConfiguration.exportBaseValues\<close>, calls the generator, and writes the saved value
  back. The configuration is threaded as state.
\<close>

definition themedCall :: "config \<Rightarrow> (config \<Rightarrow> 'a) \<Rightarrow> 'a \<times> config" where
  "themedCall cfg generate =
     (let originalExportBaseValues = exportBaseValues cfg;
          cfg1 = cfg\<lparr>exportBaseValues := False\<rparr>;
          file = generate cfg1;
          cfg2 = cfg1\<lparr>exportBaseValues := originalExportBaseValues\<rparr>
      in (file, cfg2))"

fun nestedThemeFiles ::
  "(config \<Rightarrow> theme \<Rightarrow> 'a) \<Rightarrow> config \<Rightarrow> theme list \<Rightarrow> 'a list \<times> config" where
  "nestedThemeFiles generate cfg [] = ([], cfg)"
| "nestedThemeFiles generate cfg (theme # themes) =
     (case themedCall cfg (\<lambda>c. generate c theme) of
        (file, cfg1) \<Rightarrow>
          (case nestedThemeFiles generate cfg1 themes of
             (files, cfg2) \<Rightarrow> (file # files, cfg2)))"

text \<open>The reducer of lines 111-126: \<^verbatim>\<open>JSON.parse\<close> throws on a content that is not JSON.\<close>

definition mergeStep ::
  "env \<Rightarrow> config \<Rightarrow> outputFile option \<Rightarrow> outputFile option \<Rightarrow> error + outputFile option" where
  "mergeStep e cfg merged file =
     (case file of
        None \<Rightarrow> Inr merged
      | Some f \<Rightarrow>
          (case merged of
             None \<Rightarrow> Inr (Some f)
           | Some m \<Rightarrow>
               (case jsonParse e (f_content m) of
                  None \<Rightarrow> Inl SyntaxError
                | Some a \<Rightarrow>
                    (case jsonParse e (f_content f) of
                       None \<Rightarrow> Inl SyntaxError
                     | Some b \<Rightarrow>
                         Inr (Some (f\<lparr>f_content :=
                                jsonStringify e (deepMerge e a b) (indent cfg)\<rparr>))))))"

fun mergeFiles ::
  "env \<Rightarrow> config \<Rightarrow> outputFile option \<Rightarrow> outputFile option list \<Rightarrow> error + outputFile option" where
  "mergeFiles e cfg merged [] = Inr merged"
| "mergeFiles e cfg merged (file # files) =
     (case mergeStep e cfg merged file of
        Inl err \<Rightarrow> Inl err
      | Inr merged' \<Rightarrow> mergeFiles e cfg merged' files)"

text \<open>
  The code that lines 88-126, 159-190 and 210-241 repeat for their generator: the base
  file if enabled, one themed file per theme, all merged from the left.
\<close>

definition nestedThemesFile ::
  "env \<Rightarrow> theme list \<Rightarrow> token list \<Rightarrow> (config \<Rightarrow> token list \<Rightarrow> theme option \<Rightarrow> outputFile option)
    \<Rightarrow> config \<Rightarrow> (error + outputFile option) \<times> config" where
  "nestedThemesFile e themes tokens generate cfg =
     (let baseFile = (if exportBaseValues cfg then generate cfg tokens None else None)
      in (case nestedThemeFiles
                 (\<lambda>c theme. generate c (computeTokensByApplyingThemes e tokens tokens [theme])
                                (Some theme))
                 cfg themes of
            (themeFiles, cfg1) \<Rightarrow> (mergeFiles e cfg1 None (baseFile # themeFiles), cfg1)))"

text \<open>\<^verbatim>\<open>Array.map\<close> with a callback that may throw and that writes the shared configuration.\<close>

fun mapWithConfig ::
  "(config \<Rightarrow> 'a \<Rightarrow> (error + 'b) \<times> config) \<Rightarrow> config \<Rightarrow> 'a list \<Rightarrow> (error + 'b list) \<times> config" where
  "mapWithConfig f cfg [] = (Inr [], cfg)"
| "mapWithConfig f cfg (x # xs) =
     (case f cfg x of
        (Inl err, cfg1) \<Rightarrow> (Inl err, cfg1)
      | (Inr y, cfg1) \<Rightarrow>
          (case mapWithConfig f cfg1 xs of
             (Inl err, cfg2) \<Rightarrow> (Inl err, cfg2)
           | (Inr ys, cfg2) \<Rightarrow> (Inr (y # ys), cfg2)))"

definition nestedSingleFile ::
  "env \<Rightarrow> config \<Rightarrow> theme list \<Rightarrow> token list \<Rightarrow> tokenGroup list \<Rightarrow> collection list
    \<Rightarrow> (error + outputFile list) \<times> config" where
  "nestedSingleFile e cfg themes tokens tokenGroups tokenCollections =
     (case nestedThemesFile e themes tokens
             (\<lambda>c toks th. combinedStyleOutputFile e c toks tokenGroups [] th tokenCollections) cfg of
        (Inl err, cfg1) \<Rightarrow> (Inl err, cfg1)
      | (Inr mergedFile, cfg1) \<Rightarrow> (Inr (processOutputFiles [mergedFile]), cfg1))"

definition nestedByCollection ::
  "env \<Rightarrow> config \<Rightarrow> theme list \<Rightarrow> token list \<Rightarrow> tokenGroup list \<Rightarrow> collection list
    \<Rightarrow> (error + outputFile list) \<times> config" where
  "nestedByCollection e cfg themes tokens tokenGroups tokenCollections =
     (case mapWithConfig
             (\<lambda>c collection.
                if isGlobalOrAlias e collection then
                  (Inr (if exportBaseValues c
                        then combinedCollectionStyleOutputFile e c collection tokens tokenGroups []
                               None tokenCollections
                        else None), c)
                else nestedThemesFile e themes tokens
                       (\<lambda>c' toks th. combinedCollectionStyleOutputFile e c' collection toks
                                        tokenGroups [] th tokenCollections) c)
             cfg (collectionsWithTokens tokens tokenCollections) of
        (Inl err, cfg1) \<Rightarrow> (Inl err, cfg1)
      | (Inr valueObjectFiles, cfg1) \<Rightarrow> (Inr (processOutputFiles valueObjectFiles), cfg1))"

definition nestedByType ::
  "env \<Rightarrow> config \<Rightarrow> theme list \<Rightarrow> token list \<Rightarrow> tokenGroup list \<Rightarrow> collection list
    \<Rightarrow> (error + outputFile list) \<times> config" where
  "nestedByType e cfg themes tokens tokenGroups tokenCollections =
     (case mapWithConfig
             (\<lambda>c type. nestedThemesFile e themes tokens
                  (\<lambda>c' toks th. styleOutputFile e c' type toks tokenGroups [] th tokenCollections) c)
             cfg (tokenTypeValues e) of
        (Inl err, cfg1) \<Rightarrow> (Inl err, cfg1)
      | (Inr valueObjectFiles, cfg1) \<Rightarrow> (Inr (processOutputFiles valueObjectFiles), cfg1))"

subsection \<open>Separate files\<close>

definition separateSingleFile ::
  "env \<Rightarrow> config \<Rightarrow> theme list \<Rightarrow> token list \<Rightarrow> tokenGroup list \<Rightarrow> collection list
    \<Rightarrow> outputFile list" where
  "separateSingleFile e cfg themes tokens tokenGroups tokenCollections =
     (let themeFiles = map (\<lambda>theme.
            let themedTokens = computeTokensByApplyingThemes e tokens tokens [theme];
                themePath = getThemeIdentifier e theme camelCase
            in combinedStyleOutputFile e cfg themedTokens tokenGroups themePath (Some theme)
                 tokenCollections) themes;
          baseFile = (if exportBaseValues cfg
                      then combinedStyleOutputFile e cfg tokens tokenGroups [] None tokenCollections
                      else None)
      in processOutputFiles (baseFile # themeFiles))"

text \<open>\<^verbatim>\<open>Array.flatMap\<close> over calls that may not return.\<close>

definition flatMapOption :: "('a \<Rightarrow> 'b list option) \<Rightarrow> 'a list \<Rightarrow> 'b list option" where
  "flatMapOption f xs = map_option concat (those (map f xs))"

text \<open>\<^verbatim>\<open>String.prototype.replace\<close> with a string pattern: the first occurrence only.\<close>

fun replaceFirst :: "string \<Rightarrow> string \<Rightarrow> string \<Rightarrow> string" where
  "replaceFirst pat rep [] = (if pat = [] then rep else [])"
| "replaceFirst pat rep (c # cs) =
     (if take (length pat) (c # cs) = pat then rep @ drop (length pat) (c # cs)
      else c # replaceFirst pat rep cs)"

text \<open>The callback of \<^verbatim>\<open>baseComponentFiles.map\<close>, lines 304-321.\<close>

definition componentThemeFile ::
  "env \<Rightarrow> config \<Rightarrow> theme \<Rightarrow> token list \<Rightarrow> string \<Rightarrow> collection \<Rightarrow> token list \<Rightarrow> tokenGroup list
    \<Rightarrow> collection list \<Rightarrow> outputFile \<Rightarrow> outputFile option" where
  "componentThemeFile e cfg theme themedTokens themeName collection tokens tokenGroups
       tokenCollections baseFile =
     (let collectionThemedTokens =
            filter (\<lambda>tok. t_collectionId tok = Some (c_persistentId collection)) themedTokens
      in (case processTokensToObject e cfg collectionThemedTokens tokenGroups (Some theme)
                 tokenCollections tokens of
            None \<Rightarrow> None
          | Some themedTokenObject \<Rightarrow>
              let content = jsonStringify e themedTokenObject (indent cfg);
                  stripped = replaceFirst ''.json'' [] (f_name baseFile);
                  componentName = (if stripped = [] then ''unknown'' else stripped)
              in Some (createTextFile (''./brand/'' @ themeName) (componentName @ ''.json'')
                         content)))"

text \<open>
  \<^verbatim>\<open>componentThemeFiles\<close>, lines 299-323, for the theme at position \<open>i\<close> of the requested
  themes. \<open>rnd k\<close> is the value that the \<open>k\<close>-th call of \<^verbatim>\<open>componentGroupStyleOutputFiles\<close>
  in the run draws from \<^verbatim>\<open>Math.random()\<close>.
\<close>

definition componentThemeFiles ::
  "env \<Rightarrow> config \<Rightarrow> (nat \<Rightarrow> string) \<Rightarrow> nat \<Rightarrow> theme \<Rightarrow> token list \<Rightarrow> string \<Rightarrow> collection list
    \<Rightarrow> token list \<Rightarrow> tokenGroup list \<Rightarrow> collection list \<Rightarrow> outputFile list option" where
  "componentThemeFiles e cfg rnd i theme themedTokens themeName componentsCollections tokens
       tokenGroups tokenCollections =
     flatMapOption
       (\<lambda>(j, collection).
          (case componentGroupStyleOutputFiles e cfg
                  (rnd (i * length componentsCollections + j)) collection tokens tokenGroups []
                  None tokenCollections of
             None \<Rightarrow> None
           | Some baseComponentFiles \<Rightarrow>
               Some (processOutputFiles
                       (map (componentThemeFile e cfg theme themedTokens themeName collection
                               tokens tokenGroups tokenCollections) baseComponentFiles))))
       (enumerate 0 componentsCollections)"

text \<open>\<^verbatim>\<open>themeFiles\<close>, lines 294-331.\<close>

definition separateThemeFiles ::
  "env \<Rightarrow> config \<Rightarrow> (nat \<Rightarrow> string) \<Rightarrow> theme list \<Rightarrow> collection list \<Rightarrow> collection list
    \<Rightarrow> token list \<Rightarrow> tokenGroup list \<Rightarrow> collection list \<Rightarrow> outputFile option list option" where
  "separateThemeFiles e cfg rnd themes componentsCollections otherCollections tokens tokenGroups
       tokenCollections =
     flatMapOption
       (\<lambda>(i, theme).
          let themedTokens = computeTokensByApplyingThemes e tokens tokens [theme];
              themeName = getThemeIdentifier e theme kebabCase
          in (case componentThemeFiles e cfg rnd i theme themedTokens themeName
                     componentsCollections tokens tokenGroups tokenCollections of
                None \<Rightarrow> None
              | Some componentThemeFiles' \<Rightarrow>
                  let otherThemeFiles = map (\<lambda>collection.
                        combinedCollectionStyleOutputFile e cfg collection themedTokens tokenGroups
                          themeName (Some theme) tokenCollections) otherCollections
                  in Some (map Some componentThemeFiles' @ otherThemeFiles)))
       (enumerate 0 themes)"

text \<open>\<^verbatim>\<open>brandFiles\<close>, lines 334-349.\<close>

definition brandFiles ::
  "env \<Rightarrow> config \<Rightarrow> theme list \<Rightarrow> token list \<Rightarrow> tokenGroup list \<Rightarrow> collection list
    \<Rightarrow> outputFile list" where
  "brandFiles e cfg themes tokens tokenGroups tokenCollections =
     processOutputFiles (map (\<lambda>theme.
        let themedTokens = computeTokensByApplyingThemes e tokens tokens [theme];
            themeName = getThemeIdentifier e theme kebabCase
        in (case processTokensToObject e cfg themedTokens tokenGroups (Some theme)
                   tokenCollections tokens of
              None \<Rightarrow> None
            | Some brandTokenObject \<Rightarrow>
                let content = jsonStringify e brandTokenObject (indent cfg)
                in Some (createTextFile ''./brand'' (themeName @ ''.json'') content))) themes)"

text \<open>\<^verbatim>\<open>baseFiles\<close>, lines 351-375. The component calls come after those of the theme files.\<close>

definition globalAliasBaseFiles ::
  "env \<Rightarrow> config \<Rightarrow> token list \<Rightarrow> tokenGroup list \<Rightarrow> collection list \<Rightarrow> outputFile option list" where
  "globalAliasBaseFiles e cfg tokens tokenGroups tokenCollections =
     map (\<lambda>collection.
            combinedCollectionStyleOutputFile e cfg collection tokens tokenGroups [] None
              tokenCollections)
       (filter (isGlobalOrAlias e) (collectionsWithTokens tokens tokenCollections))"

definition componentBaseFiles ::
  "env \<Rightarrow> config \<Rightarrow> (nat \<Rightarrow> string) \<Rightarrow> nat \<Rightarrow> collection list \<Rightarrow> token list \<Rightarrow> tokenGroup list
    \<Rightarrow> collection list \<Rightarrow> outputFile list option" where
  "componentBaseFiles e cfg rnd k componentsCollections tokens tokenGroups tokenCollections =
     (if exportBaseValues cfg then
        flatMapOption
          (\<lambda>(j, collection).
             componentGroupStyleOutputFiles e cfg (rnd (k + j)) collection tokens tokenGroups []
               None tokenCollections)
          (enumerate 0 componentsCollections)
      else Some [])"

definition otherBaseFiles ::
  "env \<Rightarrow> config \<Rightarrow> token list \<Rightarrow> tokenGroup list \<Rightarrow> collection list \<Rightarrow> outputFile option list" where
  "otherBaseFiles e cfg tokens tokenGroups tokenCollections =
     (if exportBaseValues cfg then
        map (\<lambda>collection.
               combinedCollectionStyleOutputFile e cfg collection tokens tokenGroups [] None
                 tokenCollections)
          (filter (\<lambda>collection. \<not> isGlobalOrAlias e collection \<and> \<not> isComponents e collection)
             (collectionsWithTokens tokens tokenCollections))
      else [])"

text \<open>The identifier that the deduplication compares, lines 383-384.\<close>

definition fileId :: "outputFile \<Rightarrow> string" where
  "fileId file = f_path file @ ''/'' @ (if f_name file = [] then ''unknown'' else f_name file)"

text \<open>\<^verbatim>\<open>Array.prototype.findIndex\<close>: the first index at which the predicate holds, or -1.\<close>

fun findIndexFrom :: "('a \<Rightarrow> bool) \<Rightarrow> 'a list \<Rightarrow> nat \<Rightarrow> int" where
  "findIndexFrom P [] i = - 1"
| "findIndexFrom P (x # xs) i = (if P x then int i else findIndexFrom P xs (Suc i))"

definition findIndex :: "('a \<Rightarrow> bool) \<Rightarrow> 'a list \<Rightarrow> int" where
  "findIndex P xs = findIndexFrom P xs 0"

text \<open>\<^verbatim>\<open>uniqueFiles\<close>, lines 380-387.\<close>

definition uniqueFiles :: "outputFile list \<Rightarrow> outputFile list" where
  "uniqueFiles allFiles =
     map snd (filter (\<lambda>(index, file).
                 int index = findIndex (\<lambda>f. fileId file = fileId f) allFiles)
               (enumerate 0 allFiles))"

text \<open>\<^verbatim>\<open>allFiles\<close>, line 379, in the order in which the parts are computed.\<close>

definition separateAllFiles ::
  "env \<Rightarrow> config \<Rightarrow> (nat \<Rightarrow> string) \<Rightarrow> theme list \<Rightarrow> token list \<Rightarrow> tokenGroup list \<Rightarrow> collection list
    \<Rightarrow> outputFile list option" where
  "separateAllFiles e cfg rnd themes tokens tokenGroups tokenCollections =
     (let withTokens = collectionsWithTokens tokens tokenCollections;
          componentsCollections = filter (isComponents e) withTokens;
          otherCollections = filter (\<lambda>collection.
              \<not> isGlobalOrAlias e collection \<and> \<not> isComponents e collection \<and> \<not> isBrand e collection)
            withTokens
      in (case separateThemeFiles e cfg rnd themes componentsCollections otherCollections tokens
                 tokenGroups tokenCollections of
            None \<Rightarrow> None
          | Some themeFiles \<Rightarrow>
              (case componentBaseFiles e cfg rnd (length themes * length componentsCollections)
                      componentsCollections tokens tokenGroups tokenCollections of
                 None \<Rightarrow> None
               | Some componentBaseFiles' \<Rightarrow>
                   let baseFiles = globalAliasBaseFiles e cfg tokens tokenGroups tokenCollections
                                   @ map Some componentBaseFiles'
                                   @ otherBaseFiles e cfg tokens tokenGroups tokenCollections
                   in Some (processOutputFiles
                              (baseFiles @ themeFiles
                               @ map Some (brandFiles e cfg themes tokens tokenGroups
                                             tokenCollections))))))"

definition separateByCollection ::
  "env \<Rightarrow> config \<Rightarrow> (nat \<Rightarrow> string) \<Rightarrow> theme list \<Rightarrow> token list \<Rightarrow> tokenGroup list \<Rightarrow> collection list
    \<Rightarrow> outputFile list option" where
  "separateByCollection e cfg rnd themes tokens tokenGroups tokenCollections =
     map_option uniqueFiles
       (separateAllFiles e cfg rnd themes tokens tokenGroups tokenCollections)"

definition separateByType ::
  "env \<Rightarrow> config \<Rightarrow> theme list \<Rightarrow> token list \<Rightarrow> tokenGroup list \<Rightarrow> collection list
    \<Rightarrow> outputFile list" where
  "separateByType e cfg themes tokens tokenGroups tokenCollections =
     (let themeFiles = concat (map (\<lambda>theme.
            let themedTokens = computeTokensByApplyingThemes e tokens tokens [theme];
                themePath = getThemeIdentifier e theme camelCase
            in map (\<lambda>type. styleOutputFile e cfg type themedTokens tokenGroups themePath
                              (Some theme) tokenCollections) (tokenTypeValues e)) themes);
          baseFiles = (if exportBaseValues cfg
                       then map (\<lambda>type. styleOutputFile e cfg type tokens tokenGroups [] None
                                          tokenCollections) (tokenTypeValues e)
                       else [])
      in processOutputFiles (baseFiles @ themeFiles))"

subsection \<open>Merged theme\<close>

text \<open>\<^verbatim>\<open>themesToApply[0]\<close>, which is \<^verbatim>\<open>undefined\<close> on an empty array.\<close>

definition firstTheme :: "theme list \<Rightarrow> theme option" where
  "firstTheme themes = (case themes of [] \<Rightarrow> None | theme # _ \<Rightarrow> Some theme)"

definition mergedSingleFile ::
  "env \<Rightarrow> config \<Rightarrow> theme list \<Rightarrow> token list \<Rightarrow> tokenGroup list \<Rightarrow> collection list
    \<Rightarrow> outputFile list" where
  "mergedSingleFile e cfg themes tokens tokenGroups tokenCollections =
     (let baseFile = (if exportBaseValues cfg
                      then combinedStyleOutputFile e cfg tokens tokenGroups [] None tokenCollections
                      else None);
          themedTokens = computeTokensByApplyingThemes e tokens tokens themes;
          mergedThemeFile = combinedStyleOutputFile e cfg themedTokens tokenGroups ''themed''
                              (firstTheme themes) tokenCollections
      in processOutputFiles [baseFile, mergedThemeFile])"

definition mergedByCollection ::
  "env \<Rightarrow> config \<Rightarrow> theme list \<Rightarrow> token list \<Rightarrow> tokenGroup list \<Rightarrow> collection list
    \<Rightarrow> outputFile list" where
  "mergedByCollection e cfg themes tokens tokenGroups tokenCollections =
     (let withTokens = collectionsWithTokens tokens tokenCollections;
          otherCollections = filter (\<lambda>collection. \<not> isGlobalOrAlias e collection) withTokens;
          baseTokenFiles = (if exportBaseValues cfg
                            then map (\<lambda>collection.
                                   combinedCollectionStyleOutputFile e cfg collection tokens
                                     tokenGroups [] None tokenCollections) withTokens
                            else []);
          themedTokens = computeTokensByApplyingThemes e tokens tokens themes;
          mergedThemeFiles = map (\<lambda>collection.
              combinedCollectionStyleOutputFile e cfg collection themedTokens tokenGroups
                ''themed'' (firstTheme themes) tokenCollections) otherCollections
      in processOutputFiles (baseTokenFiles @ mergedThemeFiles))"

definition mergedByType ::
  "env \<Rightarrow> config \<Rightarrow> theme list \<Rightarrow> token list \<Rightarrow> tokenGroup list \<Rightarrow> collection list
    \<Rightarrow> outputFile list" where
  "mergedByType e cfg themes tokens tokenGroups tokenCollections =
     (let baseTokenFiles = (if exportBaseValues cfg
                            then map (\<lambda>type. styleOutputFile e cfg type tokens tokenGroups []
                                               None tokenCollections) (tokenTypeValues e)
                            else []);
          themedTokens = computeTokensByApplyingThemes e tokens tokens themes;
          mergedThemeFiles = map (\<lambda>type.
              styleOutputFile e cfg type themedTokens tokenGroups ''themed'' (firstTheme themes)
                tokenCollections) (tokenTypeValues e)
      in processOutputFiles (baseTokenFiles @ mergedThemeFiles))"

subsection \<open>No theme processed\<close>

text \<open>Lines 519-547: the collection structure when no theme was requested.\<close>

definition collectionFiles ::
  "env \<Rightarrow> config \<Rightarrow> (nat \<Rightarrow> string) \<Rightarrow> token list \<Rightarrow> tokenGroup list \<Rightarrow> collection list
    \<Rightarrow> outputFile list option" where
  "collectionFiles e cfg rnd tokens tokenGroups tokenCollections =
     (let withTokens = collectionsWithTokens tokens tokenCollections;
          componentsCollections = filter (isComponents e) withTokens;
          otherCollections = filter (\<lambda>collection. \<not> isComponents e collection) withTokens
      in (case flatMapOption
                 (\<lambda>(j, collection).
                    componentGroupStyleOutputFiles e cfg (rnd j) collection tokens tokenGroups []
                      None tokenCollections)
                 (enumerate 0 componentsCollections) of
            None \<Rightarrow> None
          | Some componentFiles \<Rightarrow>
              let otherCollectionFiles = map (\<lambda>collection.
                    combinedCollectionStyleOutputFile e cfg collection tokens tokenGroups [] None
                      tokenCollections) otherCollections
              in Some (processOutputFiles (map Some componentFiles @ otherCollectionFiles))))"

text \<open>Lines 518-562: what runs when no theme was requested, and after \<^verbatim>\<open>ApplyDirectly\<close>
  has replaced the tokens.\<close>

definition defaultFiles ::
  "env \<Rightarrow> config \<Rightarrow> (nat \<Rightarrow> string) \<Rightarrow> pulsarContext \<Rightarrow> token list \<Rightarrow> tokenGroup list
    \<Rightarrow> collection list \<Rightarrow> outputFile list option" where
  "defaultFiles e cfg rnd ctx tokens tokenGroups tokenCollections =
     (if fileStructure cfg = SeparateByCollection
         \<and> (case ctx_themeIds ctx of None \<Rightarrow> True | Some themeIds \<Rightarrow> length themeIds = 0)
      then collectionFiles e cfg rnd tokens tokenGroups tokenCollections
      else if fileStructure cfg = SingleFile then
        Some (processOutputFiles
                [if exportBaseValues cfg
                 then combinedStyleOutputFile e cfg tokens tokenGroups [] None tokenCollections
                 else None])
      else
        Some (processOutputFiles
                (if exportBaseValues cfg
                 then map (\<lambda>type. styleOutputFile e cfg type tokens tokenGroups [] None
                                    tokenCollections) (tokenTypeValues e)
                 else [])))"

subsection \<open>\<^verbatim>\<open>Pulsar.export\<close>\<close>

text \<open>
  The callback of lines 33-563. \<open>Some (Inl err)\<close> is a thrown error, \<open>Some (Inr files)\<close> the
  returned list, \<open>None\<close> a run that does not return.
\<close>

definition themedFiles ::
  "env \<Rightarrow> config \<Rightarrow> (nat \<Rightarrow> string) \<Rightarrow> pulsarContext \<Rightarrow> theme list \<Rightarrow> token list \<Rightarrow> tokenGroup list
    \<Rightarrow> collection list \<Rightarrow> (error + outputFile list) option" where
  "themedFiles e cfg rnd ctx themes tokens tokenGroups tokenCollections =
     (case exportThemesAs cfg of
        NestedThemes \<Rightarrow>
          if fileStructure cfg = SingleFile
          then Some (fst (nestedSingleFile e cfg themes tokens tokenGroups tokenCollections))
          else if fileStructure cfg = SeparateByCollection
          then Some (fst (nestedByCollection e cfg themes tokens tokenGroups tokenCollections))
          else Some (fst (nestedByType e cfg themes tokens tokenGroups tokenCollections))
      | SeparateFiles \<Rightarrow>
          if fileStructure cfg = SingleFile
          then Some (Inr (separateSingleFile e cfg themes tokens tokenGroups tokenCollections))
          else if fileStructure cfg = SeparateByCollection
          then map_option Inr
                 (separateByCollection e cfg rnd themes tokens tokenGroups tokenCollections)
          else Some (Inr (separateByType e cfg themes tokens tokenGroups tokenCollections))
      | MergedTheme \<Rightarrow>
          if fileStructure cfg = SingleFile
          then Some (Inr (mergedSingleFile e cfg themes tokens tokenGroups tokenCollections))
          else if fileStructure cfg = SeparateByCollection
          then Some (Inr (mergedByCollection e cfg themes tokens tokenGroups tokenCollections))
          else Some (Inr (mergedByType e cfg themes tokens tokenGroups tokenCollections))
      | ApplyDirectly \<Rightarrow>
          map_option Inr
            (defaultFiles e cfg rnd ctx (computeTokensByApplyingThemes e tokens tokens themes)
               tokenGroups tokenCollections))"

definition export ::
  "env \<Rightarrow> config \<Rightarrow> (nat \<Rightarrow> string) \<Rightarrow> pulsarContext \<Rightarrow> designSystem
    \<Rightarrow> (error + outputFile list) option" where
  "export e cfg rnd ctx ds =
     (case filterByBrand ctx ds of
        Inl err \<Rightarrow> Some (Inl err)
      | Inr (tokens, tokenGroups) \<Rightarrow>
          (case ctx_themeIds ctx of
             None \<Rightarrow>
               map_option Inr
                 (defaultFiles e cfg rnd ctx tokens tokenGroups (ds_tokenCollections ds))
           | Some themeIds \<Rightarrow>
               if length themeIds > 0 then
                 (case themesToApply (ds_themes ds) themeIds of
                    Inl err \<Rightarrow> Some (Inl err)
                  | Inr themes \<Rightarrow>
                      themedFiles e cfg rnd ctx themes tokens tokenGroups (ds_tokenCollections ds))
               else
                 map_option Inr
                   (defaultFiles e cfg rnd ctx tokens tokenGroups (ds_tokenCollections ds))))"

section \<open>Notions of the specification\<close>




text \<open>
  The specification's configuration error: the requested brand identifier matches no
  loaded brand, or some requested theme identifier matches no loaded theme.
\<close>

definition unresolvedIdentifier :: "pulsarContext \<Rightarrow> designSystem \<Rightarrow> bool" where
  "unresolvedIdentifier ctx ds =
     ((truthy (ctx_brandId ctx) \<and>
       \<not> list_ex (\<lambda>brand. Some (b_id brand) = ctx_brandId ctx
                            \<or> Some (b_idInVersion brand) = ctx_brandId ctx) (ds_brands ds))
      \<or> (case ctx_themeIds ctx of
            None \<Rightarrow> False
          | Some themeIds \<Rightarrow>
              list_ex (\<lambda>themeId.
                 \<not> list_ex (\<lambda>theme. th_id theme = themeId \<or> th_idInVersion theme = themeId)
                      (ds_themes ds)) themeIds))"

definition isConfigurationError :: "(error + outputFile list) option \<Rightarrow> bool" where
  "isConfigurationError result =
     (case result of
        Some (Inl (UnableToFindBrand _)) \<Rightarrow> True
      | Some (Inl (UnableToFindTheme _)) \<Rightarrow> True
      | _ \<Rightarrow> False)"

text \<open>
  The order of first occurrence, and the component group ids of the tokens that have a
  parent group, in token order.
\<close>

definition firstOccurrences :: "'a list \<Rightarrow> 'a list" where
  "firstOccurrences xs = rev (remdups (rev xs))"

definition componentGroupIds :: "env \<Rightarrow> tokenGroup list \<Rightarrow> token list \<Rightarrow> string list" where
  "componentGroupIds e tokenGroups toks =
     map (\<lambda>tok. the (findComponentGroup (toLowerCase e) tokenGroups (the (t_parentGroupId tok))
                        (t_parentGroupId tok)))
       (filter (\<lambda>tok. truthy (t_parentGroupId tok)) toks)"



section \<open>Example inputs\<close>

text \<open>
  Stand-ins for the collaborators, used at the concrete inputs below. The names in the
  examples are lower-case ASCII in kebab form, on which \<^verbatim>\<open>toLowerCase\<close> and
  \<^verbatim>\<open>codeSafeVariableName\<close> are the identity; a theme overrides the tokens whose ids it
  lists; the tree formatter gives a tree for every non-empty token list; the collection
  generator gives a document for every collection that has tokens, whatever the
  configuration.
\<close>

definition applyOverrides :: "theme list \<Rightarrow> token \<Rightarrow> token" where
  "applyOverrides themes tok =
     foldl (\<lambda>t theme. case map_of (th_overrides theme) (t_id t) of
                         None \<Rightarrow> t
                       | Some v \<Rightarrow> t\<lparr>t_value := v\<rparr>) tok themes"

definition sampleTree :: "token list \<Rightarrow> json option" where
  "sampleTree toks =
     (if toks = [] then None
      else Some (JObject (map (\<lambda>tok. (t_name tok, JLeaf (t_value tok))) toks)))"

definition sampleStringify :: "json \<Rightarrow> string" where
  "sampleStringify j =
     (case j of
        JLeaf v \<Rightarrow> v
      | JObject entries \<Rightarrow>
          concat (map (\<lambda>(k, v). k @ '':'' @ (case v of JLeaf x \<Rightarrow> x | JObject _ \<Rightarrow> ''{}'') @ '';'')
                    entries))"

definition sampleFile :: "string \<Rightarrow> string \<Rightarrow> token list \<Rightarrow> outputFile option" where
  "sampleFile themePath fileName toks =
     (case sampleTree toks of
        None \<Rightarrow> None
      | Some tree \<Rightarrow> Some (createTextFile (''./'' @ themePath) fileName (sampleStringify tree)))"

definition sampleEnv :: env where
  "sampleEnv =
     \<lparr>codeSafeVariableName = (\<lambda>name c. name),
      getThemeIdentifier = (\<lambda>theme c. th_name theme),
      filterThemedTokens = (\<lambda>toks theme.
         filter (\<lambda>tok. t_id tok \<in> set (map fst (th_overrides theme))) toks),
      computeTokensByApplyingThemes = (\<lambda>allTokens toks themes. map (applyOverrides themes) toks),
      toLowerCase = (\<lambda>name. name),
      jsonStringify = (\<lambda>j ind. sampleStringify j),
      jsonParse = (\<lambda>text. Some (JLeaf text)),
      deepMerge = (\<lambda>a b. b),
      tokenTypeValues = [''Color'', ''Typography''],
      processTokensToObject = (\<lambda>cfg toks tokenGroups theme collections allTokens. sampleTree toks),
      styleOutputFile = (\<lambda>cfg type toks tokenGroups themePath theme collections.
         sampleFile themePath (type @ ''.json'') (filter (\<lambda>tok. t_tokenType tok = type) toks)),
      combinedStyleOutputFile = (\<lambda>cfg toks tokenGroups themePath theme collections.
         sampleFile themePath ''tokens.json'' toks),
      combinedCollectionStyleOutputFile = (\<lambda>cfg collection toks tokenGroups themePath theme collections.
         sampleFile themePath (c_name collection @ ''.json'')
           (filter (\<lambda>tok. t_collectionId tok = Some (c_persistentId collection)) toks))\<rparr>"


definition buttonGroup :: tokenGroup where
  "buttonGroup = \<lparr>g_id = ''g-button'', g_name = ''button'', g_brandId = ''b1'',
                   g_parentGroupId = None\<rparr>"

definition primaryGroup :: tokenGroup where
  "primaryGroup = \<lparr>g_id = ''g-primary'', g_name = ''primary'', g_brandId = ''b1'',
                    g_parentGroupId = Some ''g-button''\<rparr>"


definition layoutGroup :: tokenGroup where
  "layoutGroup = \<lparr>g_id = ''g-layout'', g_name = ''layout'', g_brandId = ''b1'',
                   g_parentGroupId = None\<rparr>"


definition buttonToken :: token where
  "buttonToken = \<lparr>t_id = ''t1'', t_name = ''background'', t_tokenType = ''Color'',
                   t_value = ''black'', t_brandId = ''b1'',
                   t_collectionId = Some ''c-components'', t_parentGroupId = Some ''g-primary''\<rparr>"


definition globalToken :: token where
  "globalToken = \<lparr>t_id = ''t2'', t_name = ''white'', t_tokenType = ''Color'',
                   t_value = ''fff'', t_brandId = ''b1'',
                   t_collectionId = Some ''c-global'', t_parentGroupId = Some ''g-layout''\<rparr>"

definition globalCollection :: collection where
  "globalCollection = \<lparr>c_persistentId = ''c-global'', c_name = ''global''\<rparr>"

definition componentsCollection :: collection where
  "componentsCollection = \<lparr>c_persistentId = ''c-components'', c_name = ''components''\<rparr>"

definition darkTheme :: theme where
  "darkTheme = \<lparr>th_id = ''th-dark'', th_idInVersion = ''th-dark-v1'', th_name = ''dark'',
                 th_overrides = []\<rparr>"

definition noThemes :: pulsarContext where
  "noThemes = \<lparr>ctx_brandId = None, ctx_themeIds = None\<rparr>"

definition darkRequested :: pulsarContext where
  "darkRequested = \<lparr>ctx_brandId = Some ''b1'', ctx_themeIds = Some [''th-dark'']\<rparr>"

definition missingThemeRequested :: pulsarContext where
  "missingThemeRequested = \<lparr>ctx_brandId = Some ''b1'', ctx_themeIds = Some [''th-light'']\<rparr>"

definition sampleBrand :: brand where
  "sampleBrand = \<lparr>b_id = ''b1'', b_idInVersion = ''b1-v1''\<rparr>"

definition componentsOnly :: designSystem where
  "componentsOnly =
     \<lparr>ds_tokens = [buttonToken], ds_tokenGroups = [buttonGroup, primaryGroup],
      ds_tokenCollections = [componentsCollection], ds_brands = [sampleBrand],
      ds_themes = [darkTheme]\<rparr>"


definition globalOnly :: designSystem where
  "globalOnly =
     \<lparr>ds_tokens = [globalToken], ds_tokenGroups = [layoutGroup],
      ds_tokenCollections = [globalCollection], ds_brands = [sampleBrand],
      ds_themes = [darkTheme]\<rparr>"


text \<open>A source of \<^verbatim>\<open>Math.random()\<close> values.\<close>

definition sampleRandom :: "nat \<Rightarrow> string" where
  "sampleRandom k = replicate k CHR ''7''"

definition sampleConfig :: "FileStructure \<Rightarrow> ThemeExportStyle \<Rightarrow> bool \<Rightarrow> bool \<Rightarrow> config" where
  "sampleConfig structure style baseValues onlyThemed =
     \<lparr>fileStructure = structure, exportThemesAs = style, exportBaseValues = baseValues,
      exportOnlyThemedTokens = onlyThemed, indent = ''  ''\<rparr>"


section \<open>The ancestor walk\<close>










section \<open>Deduplication\<close>
















section \<open>Configuration errors\<close>

lemma themesToApply_result:
  "(case themesToApply themes themeIds of
      Inl err \<Rightarrow> (\<exists>themeId. err = UnableToFindTheme themeId)
                \<and> list_ex (\<lambda>themeId. \<not> list_ex (\<lambda>theme. th_id theme = themeId
                                                  \<or> th_idInVersion theme = themeId) themes) themeIds
    | Inr found \<Rightarrow>
        \<not> list_ex (\<lambda>themeId. \<not> list_ex (\<lambda>theme. th_id theme = themeId
                                            \<or> th_idInVersion theme = themeId) themes) themeIds)"
proof (induction themeIds)
  case Nil
  show ?case by simp
next
  case (Cons themeId themeIds)
  show ?case
  proof (cases "find (\<lambda>theme. th_id theme = themeId \<or> th_idInVersion theme = themeId) themes")
    case None
    then have "\<not> list_ex (\<lambda>theme. th_id theme = themeId \<or> th_idInVersion theme = themeId) themes"
      by (auto simp: find_None_iff list_ex_iff)
    with None show ?thesis by simp
  next
    case (Some theme)
    then have "list_ex (\<lambda>theme. th_id theme = themeId \<or> th_idInVersion theme = themeId) themes"
      by (auto simp: find_Some_iff list_ex_iff)
    with Some Cons.IH show ?thesis by (auto split: sum.splits)
  qed
qed

lemma filterByBrand_result:
  "(case filterByBrand ctx ds of
      Inl err \<Rightarrow> (\<exists>brandId. err = UnableToFindBrand brandId)
                \<and> truthy (ctx_brandId ctx)
                \<and> \<not> list_ex (\<lambda>brand. Some (b_id brand) = ctx_brandId ctx
                                   \<or> Some (b_idInVersion brand) = ctx_brandId ctx) (ds_brands ds)
    | Inr found \<Rightarrow>
        \<not> (truthy (ctx_brandId ctx)
           \<and> \<not> list_ex (\<lambda>brand. Some (b_id brand) = ctx_brandId ctx
                                   \<or> Some (b_idInVersion brand) = ctx_brandId ctx) (ds_brands ds)))"
proof (cases "ctx_brandId ctx")
  case None
  then show ?thesis by (simp add: filterByBrand_def truthy_def)
next
  case (Some brandId)
  show ?thesis
  proof (cases "brandId = []")
    case True
    with Some show ?thesis by (simp add: filterByBrand_def truthy_def)
  next
    case False
    show ?thesis
    proof (cases "find (\<lambda>brand. b_id brand = brandId \<or> b_idInVersion brand = brandId)
                    (ds_brands ds)")
      case None
      then have "\<not> list_ex (\<lambda>brand. b_id brand = brandId \<or> b_idInVersion brand = brandId)
                       (ds_brands ds)"
        by (auto simp: find_None_iff list_ex_iff)
      with None Some False show ?thesis
        by (simp add: filterByBrand_def truthy_def)
    next
      case found: (Some brand)
      then have "list_ex (\<lambda>brand. b_id brand = brandId \<or> b_idInVersion brand = brandId)
                       (ds_brands ds)"
        by (auto simp: find_Some_iff list_ex_iff)
      with found Some False show ?thesis
        by (simp add: filterByBrand_def truthy_def)
    qed
  qed
qed

lemma mergeFiles_error: "mergeFiles e cfg merged files = Inl err \<Longrightarrow> err = SyntaxError"
  by (induction files arbitrary: merged)
     (auto simp: mergeStep_def split: sum.splits option.splits)

lemma nestedThemesFile_error:
  "nestedThemesFile e themes tokens generate cfg = (Inl err, cfg') \<Longrightarrow> err = SyntaxError"
  by (auto simp: nestedThemesFile_def Let_def simp del: mergeFiles.simps
           split: prod.splits dest: mergeFiles_error)

lemma mapWithConfig_error:
  assumes "\<And>c x err c'. f c x = (Inl err, c') \<Longrightarrow> err = SyntaxError"
  shows "mapWithConfig f cfg xs = (Inl err, cfg') \<Longrightarrow> err = SyntaxError"
proof (induction xs arbitrary: cfg cfg')
  case Nil
  then show ?case by simp
next
  case (Cons x xs)
  then show ?case
    by (auto split: prod.splits sum.splits dest: assms)
qed

lemma nested_errors:
  "fst (nestedSingleFile e cfg themes tokens gs cols) = Inl err \<Longrightarrow> err = SyntaxError"
  "fst (nestedByCollection e cfg themes tokens gs cols) = Inl err \<Longrightarrow> err = SyntaxError"
  "fst (nestedByType e cfg themes tokens gs cols) = Inl err \<Longrightarrow> err = SyntaxError"
proof -
  show "fst (nestedSingleFile e cfg themes tokens gs cols) = Inl err \<Longrightarrow> err = SyntaxError"
    by (auto simp: nestedSingleFile_def split: prod.splits sum.splits
             dest: nestedThemesFile_error)
  show "fst (nestedByCollection e cfg themes tokens gs cols) = Inl err \<Longrightarrow> err = SyntaxError"
    unfolding nestedByCollection_def
    by (auto split: prod.splits sum.splits if_splits
             dest!: mapWithConfig_error[rotated] dest: nestedThemesFile_error)
  show "fst (nestedByType e cfg themes tokens gs cols) = Inl err \<Longrightarrow> err = SyntaxError"
    unfolding nestedByType_def
    by (auto split: prod.splits sum.splits if_splits
             dest!: mapWithConfig_error[rotated] dest: nestedThemesFile_error)
qed

lemma themedFiles_no_configuration_error:
  "\<not> isConfigurationError (themedFiles e cfg rnd ctx themes tokens gs cols)"
  by (cases "exportThemesAs cfg")
     (auto simp: themedFiles_def isConfigurationError_def
           split: option.splits sum.splits error.splits dest: nested_errors)

lemma defaultFiles_no_configuration_error:
  "\<not> isConfigurationError (map_option Inr (defaultFiles e cfg rnd ctx tokens gs cols))"
  by (auto simp: isConfigurationError_def split: option.splits sum.splits error.splits)

text \<open>
  Claim C3. The run throws a configuration error, and so returns no document list, exactly
  when the requested brand identifier matches no loaded brand or some requested theme
  identifier matches no loaded theme. A brand identifier that is \<^verbatim>\<open>null\<close> or empty requests
  no brand.
\<close>

theorem export_aborts_iff_unresolved:
  "isConfigurationError (export e cfg rnd ctx ds) = unresolvedIdentifier ctx ds"
proof (cases "filterByBrand ctx ds")
  case (Inl err)
  with filterByBrand_result[of ctx ds] show ?thesis
    by (auto simp: export_def isConfigurationError_def unresolvedIdentifier_def)
next
  case (Inr found)
  with filterByBrand_result[of ctx ds]
  have brand: "\<not> (truthy (ctx_brandId ctx)
           \<and> \<not> list_ex (\<lambda>brand. Some (b_id brand) = ctx_brandId ctx
                                   \<or> Some (b_idInVersion brand) = ctx_brandId ctx) (ds_brands ds))"
    by simp
  obtain tokens gs where found: "found = (tokens, gs)" by (cases found)
  show ?thesis
  proof (cases "ctx_themeIds ctx")
    case None
    with Inr found brand defaultFiles_no_configuration_error[of e cfg rnd ctx tokens gs]
    show ?thesis
      by (simp add: export_def unresolvedIdentifier_def)
  next
    case (Some themeIds)
    show ?thesis
    proof (cases "themeIds = []")
      case True
      with Some Inr found brand defaultFiles_no_configuration_error[of e cfg rnd ctx tokens gs]
      show ?thesis
        by (simp add: export_def unresolvedIdentifier_def)
    next
      case False
      show ?thesis
      proof (cases "themesToApply (ds_themes ds) themeIds")
        case l: (Inl err)
        with themesToApply_result[of "ds_themes ds" themeIds] Some Inr found False
        show ?thesis
          by (auto simp: export_def isConfigurationError_def unresolvedIdentifier_def)
      next
        case r: (Inr themes)
        with themesToApply_result[of "ds_themes ds" themeIds] Some Inr found False brand
          themedFiles_no_configuration_error[of e cfg rnd ctx themes tokens gs]
        show ?thesis
          by (simp add: export_def unresolvedIdentifier_def)
      qed
    qed
  qed
qed


theorem export_aborts_iff_unresolved_witness:
  "unresolvedIdentifier missingThemeRequested globalOnly
   \<and> isConfigurationError
       (export sampleEnv (sampleConfig SingleFile NestedThemes True False) sampleRandom
          missingThemeRequested globalOnly)
   \<and> \<not> unresolvedIdentifier darkRequested globalOnly
   \<and> \<not> isConfigurationError
       (export sampleEnv (sampleConfig SingleFile NestedThemes True False) sampleRandom
          darkRequested globalOnly)"
proof -
  have a: "unresolvedIdentifier missingThemeRequested globalOnly" by code_simp
  have b: "\<not> unresolvedIdentifier darkRequested globalOnly" by code_simp
  from a b
    export_aborts_iff_unresolved
      [of sampleEnv "sampleConfig SingleFile NestedThemes True False" sampleRandom
          missingThemeRequested globalOnly]
    export_aborts_iff_unresolved
      [of sampleEnv "sampleConfig SingleFile NestedThemes True False" sampleRandom
          darkRequested globalOnly]
  show ?thesis by simp
qed

section \<open>Determinism\<close>

text \<open>
  The \<^verbatim>\<open>Map\<close> of component groups lists the groups in the order in which the tokens first
  reach them, so the component files follow the order of the tokens.
\<close>

lemma keys_mapPush:
  "map fst (mapPush m k t) = (if k \<in> set (map fst m) then map fst m else map fst m @ [k])"
  by (auto simp: mapPush_def Let_def case_prod_beta intro!: map_idI)

lemma remdups_drop_repeated:
  "k \<in> set zs \<Longrightarrow> remdups (ws @ k # zs) = remdups (ws @ zs)"
  by (induction ws) auto

lemma firstOccurrences_repeated:
  "k \<in> set xs \<Longrightarrow> firstOccurrences (xs @ k # ys) = firstOccurrences (xs @ ys)"
  by (simp add: firstOccurrences_def remdups_drop_repeated)

lemma firstOccurrences_distinct: "distinct xs \<Longrightarrow> firstOccurrences xs = xs"
  by (simp add: firstOccurrences_def distinct_remdups_id)

lemma keys_mapPush_distinct:
  "distinct (map fst m) \<Longrightarrow> distinct (map fst (mapPush m k t))"
  by (simp add: keys_mapPush)

lemma tokensByComponentGroup_keys:
  "tokensByComponentGroup e gs toks m = Some m' \<Longrightarrow> distinct (map fst m)
   \<Longrightarrow> map fst m' = firstOccurrences (map fst m @ componentGroupIds e gs toks)"
proof (induction toks arbitrary: m)
  case Nil
  then show ?case by (simp add: componentGroupIds_def firstOccurrences_distinct)
next
  case (Cons tok toks)
  show ?case
  proof (cases "truthy (t_parentGroupId tok)")
    case False
    with Cons.prems have "tokensByComponentGroup e gs toks m = Some m'"
      by (auto simp: truthy_def split: option.splits if_splits)
    from Cons.IH[OF this Cons.prems(2)] False show ?thesis
      by (simp add: componentGroupIds_def)
  next
    case True
    then obtain pid where pid: "t_parentGroupId tok = Some pid" "pid \<noteq> []"
      by (auto simp: truthy_def split: option.splits)
    with Cons.prems(1) obtain k where
      k: "findComponentGroup (toLowerCase e) gs pid (Some pid) = Some k"
      and rest: "tokensByComponentGroup e gs toks (mapPush m k tok) = Some m'"
      by (auto split: option.splits)
    from Cons.IH[OF rest keys_mapPush_distinct[OF Cons.prems(2)]]
    have "map fst m' = firstOccurrences (map fst (mapPush m k tok) @ componentGroupIds e gs toks)" .
    moreover have "componentGroupIds e gs (tok # toks) = k # componentGroupIds e gs toks"
      using True pid k by (simp add: componentGroupIds_def)
    ultimately show ?thesis
      by (simp add: keys_mapPush firstOccurrences_repeated)
  qed
qed

lemma tokensByComponentGroup_order:
  "tokensByComponentGroup e gs toks [] = Some m
   \<Longrightarrow> map fst m = firstOccurrences (componentGroupIds e gs toks)"
  using tokensByComponentGroup_keys [of e gs toks "[]" m] by simp


section \<open>The shared configuration\<close>





section \<open>Themed component documents\<close>








text \<open>
  The component generator has the skipping rule of \<^verbatim>\<open>exportOnlyThemedTokens\<close> (lines 34-40
  of component-group-file.ts): called with a theme path and a theme none of whose
  overrides is in the collection, it gives no file.
\<close>

lemma componentGroupStyleOutputFiles_skips_unthemed:
  "themePath \<noteq> [] \<Longrightarrow> exportOnlyThemedTokens cfg
   \<Longrightarrow> filterThemedTokens e
         (filter (\<lambda>tok. t_collectionId tok = Some (c_persistentId collection)) tokens) theme = []
   \<Longrightarrow> componentGroupStyleOutputFiles e cfg callId collection tokens tokenGroups themePath
         (Some theme) collections = Some []"
  by (simp add: componentGroupStyleOutputFiles_def)

text \<open>
  Claim C4 at a failing input: separate theme files by collection,
  \<^verbatim>\<open>exportOnlyThemedTokens\<close> set, a components collection whose only token the requested
  theme does not override. The composer calls the component generator without theme, so
  its skipping rule does not apply, and builds the themed document itself without
  consulting the option: \<^verbatim>\<open>./brand/dark/button.json\<close> is emitted.
\<close>

theorem themed_component_document_not_skipped:
  "exportOnlyThemedTokens (sampleConfig SeparateByCollection SeparateFiles False True)
   \<and> filterThemedTokens sampleEnv [buttonToken] darkTheme = []
   \<and> export sampleEnv (sampleConfig SeparateByCollection SeparateFiles False True) sampleRandom
       darkRequested componentsOnly
     = Some (Inr [\<lparr>f_path = ''./brand/dark'', f_name = ''button.json'',
                    f_content = ''background:black;''\<rparr>,
                  \<lparr>f_path = ''./brand'', f_name = ''dark.json'',
                    f_content = ''background:black;''\<rparr>])"
  by code_simp

section \<open>The collection structure without themes\<close>

text \<open>
  Claim C5 at a failing input: no theme requested, the collection structure,
  \<^verbatim>\<open>exportBaseValues\<close> false. The branch of lines 519-547 does not consult the option, and
  the document of the component group is emitted.
\<close>

theorem collectionFiles_ignore_exportBaseValues:
  "\<not> exportBaseValues (sampleConfig SeparateByCollection SeparateFiles False False)
   \<and> export sampleEnv (sampleConfig SeparateByCollection SeparateFiles False False) sampleRandom
       noThemes componentsOnly
     = Some (Inr [\<lparr>f_path = ''./components'', f_name = ''button.json'',
                    f_content = ''background:black;''\<rparr>])"
  by code_simp

section \<open>Global and alias collections\<close>

































end
